theory Spec2Isabelle
  imports Main "HOL-Library.Sublist"
begin

section \<open>The registry generator of tlang's playground\<close>

text \<open>
  The generator script reads tlang's \<^verbatim>\<open>index.ts\<close>, parses every namespace file it
  re-exports with the TypeScript compiler, collects the interfaces named \<^verbatim>\<open>...Node\<close>
  and writes \<^verbatim>\<open>registry.ts\<close>. The TypeScript compiler, \<^verbatim>\<open>fs\<close>, \<^verbatim>\<open>path\<close> and the clock
  are libraries: the syntax trees they deliver are the input of the model, and what the
  script does with them is embedded function by function, under the script's names.

  A JavaScript string is a \<^typ>\<open>string\<close>; a \<^typ>\<open>char\<close> stands for a UTF-16 code unit
  below 256 (Latin-1), and texts with other code units are outside the model.
\<close>

subsection \<open>String primitives of JavaScript\<close>

definition str_includes :: "string \<Rightarrow> string \<Rightarrow> bool" where
  \<comment> \<open>\<^verbatim>\<open>s.includes(t)\<close>\<close>
  "str_includes s t = sublist t s"

definition str_startsWith :: "string \<Rightarrow> string \<Rightarrow> bool" where
  \<comment> \<open>\<^verbatim>\<open>s.startsWith(t)\<close>\<close>
  "str_startsWith s t = prefix t s"

definition str_endsWith :: "string \<Rightarrow> string \<Rightarrow> bool" where
  \<comment> \<open>\<^verbatim>\<open>s.endsWith(t)\<close>\<close>
  "str_endsWith s t = suffix t s"

definition isWhiteSpace :: "char \<Rightarrow> bool" where
  \<comment> \<open>the class \<^verbatim>\<open>\s\<close>, and what \<^verbatim>\<open>trim\<close> strips: tab, LF, VT, FF, CR, space, NBSP\<close>
  "isWhiteSpace c =
     (c \<in> set [CHR 0x09, CHR 0x0A, CHR 0x0B, CHR 0x0C, CHR 0x0D, CHR 0x20, CHR 0xA0])"

definition isWordChar :: "char \<Rightarrow> bool" where
  \<comment> \<open>the class \<^verbatim>\<open>\w\<close>: \<^verbatim>\<open>[A-Za-z0-9_]\<close>\<close>
  "isWordChar c =
     (let n = (of_char c :: nat)
      in (48 \<le> n \<and> n \<le> 57) \<or> (65 \<le> n \<and> n \<le> 90) \<or> n = 95 \<or> (97 \<le> n \<and> n \<le> 122))"

definition trim :: "string \<Rightarrow> string" where
  "trim s = rev (dropWhile isWhiteSpace (rev (dropWhile isWhiteSpace s)))"

definition firstLine :: "string \<Rightarrow> string" where
  \<comment> \<open>\<^verbatim>\<open>s.split('\n')[0]\<close>: the split of any string has a first element\<close>
  "firstLine s = takeWhile (\<lambda>c. c \<noteq> CHR 0x0A) s"

text \<open>
  \<^verbatim>\<open>toUpperCase\<close> of a string of one character. The ASCII letters and the Latin-1 letters
  from 0xE0 to 0xFE (but the division sign 0xF7) have their capital 0x20 below; the sharp
  s (0xDF) becomes \<^verbatim>\<open>SS\<close>; every other character stays, but for the micro sign (0xB5) and
  the y with diaeresis (0xFF), whose capitals are code units above 255: a text with one
  of these two as the first character of a port id is outside the model.
\<close>

definition lowerCaseLetters :: string where
  "lowerCaseLetters =
     ''abcdefghijklmnopqrstuvwxyz''
     @ [CHR 0xE0, CHR 0xE1, CHR 0xE2, CHR 0xE3, CHR 0xE4, CHR 0xE5, CHR 0xE6, CHR 0xE7,
        CHR 0xE8, CHR 0xE9, CHR 0xEA, CHR 0xEB, CHR 0xEC, CHR 0xED, CHR 0xEE, CHR 0xEF,
        CHR 0xF0, CHR 0xF1, CHR 0xF2, CHR 0xF3, CHR 0xF4, CHR 0xF5, CHR 0xF6,
        CHR 0xF8, CHR 0xF9, CHR 0xFA, CHR 0xFB, CHR 0xFC, CHR 0xFD, CHR 0xFE]"

definition upperCaseLetters :: string where
  "upperCaseLetters =
     ''ABCDEFGHIJKLMNOPQRSTUVWXYZ''
     @ [CHR 0xC0, CHR 0xC1, CHR 0xC2, CHR 0xC3, CHR 0xC4, CHR 0xC5, CHR 0xC6, CHR 0xC7,
        CHR 0xC8, CHR 0xC9, CHR 0xCA, CHR 0xCB, CHR 0xCC, CHR 0xCD, CHR 0xCE, CHR 0xCF,
        CHR 0xD0, CHR 0xD1, CHR 0xD2, CHR 0xD3, CHR 0xD4, CHR 0xD5, CHR 0xD6,
        CHR 0xD8, CHR 0xD9, CHR 0xDA, CHR 0xDB, CHR 0xDC, CHR 0xDD, CHR 0xDE]"

definition toUpperCase :: "char \<Rightarrow> string" where
  "toUpperCase c =
     (if c = CHR 0xDF then ''SS''
      else (case map_of (zip lowerCaseLetters upperCaseLetters) c of
              Some u \<Rightarrow> [u]
            | None \<Rightarrow> [c]))"

definition stripNodeSuffix :: "string \<Rightarrow> string" where
  \<comment> \<open>\<^verbatim>\<open>s.replace(/Node$/, '')\<close>\<close>
  "stripNodeSuffix s = (if str_endsWith s ''Node'' then take (length s - 4) s else s)"

subsection \<open>Syntax trees, as the TypeScript compiler delivers them\<close>

text \<open>
  Every type node carries its source text (\<^verbatim>\<open>getText\<close>). A type literal has members, a
  conditional type its four parts; every other kind of type node is only its text. A
  member is a property signature (name text, declared type if any) or something else
  (a method, an index signature).
\<close>

datatype type_node =
    TypeLiteralNode string "type_element list"
  | ConditionalTypeNode string type_node type_node type_node type_node
  | OtherTypeNode string
and type_element =
    PropertySignature "string option" "type_node option"
  | OtherElement

fun getText :: "type_node \<Rightarrow> string" where
  "getText (TypeLiteralNode txt ms) = txt"
| "getText (ConditionalTypeNode txt c e t f) = txt"
| "getText (OtherTypeNode txt) = txt"

record port =
  port_id :: string
  label :: string
  port_type :: string
  required :: bool

subsection \<open>simplifyType and capitalize\<close>

definition simplifyType :: "string \<Rightarrow> string" where
  "simplifyType typeText =
     (if str_includes typeText ''number'' then ''number''
      else if str_includes typeText ''string'' then ''string''
      else if str_includes typeText ''boolean'' then ''boolean''
      else if str_includes typeText ''[]'' \<or> str_includes typeText ''Array'' then ''array''
      else if str_includes typeText ''{'' \<or> str_includes typeText ''Record''
              \<or> str_includes typeText ''object'' then ''object''
      else ''any'')"

definition capitalize :: "string \<Rightarrow> string" where
  \<comment> \<open>\<^verbatim>\<open>str.charAt(0).toUpperCase() + str.slice(1)\<close>; \<^verbatim>\<open>charAt(0)\<close> of the empty string is empty\<close>
  "capitalize str = (case str of [] \<Rightarrow> [] | c # cs \<Rightarrow> toUpperCase c @ cs)"

subsection \<open>The two regular expressions of the fallback tier\<close>

text \<open>
  \<^verbatim>\<open>/\?\s*\{([^}]+)\}/s\<close> at one position: a question mark, white space, an opening brace,
  the longest run of characters other than a closing brace (at least one), and the
  closing brace. Each part is greedy and backtracking a part never helps, since the
  character it gives back is not what the next part asks for. The result is group 1.
\<close>

definition objectAt :: "string \<Rightarrow> string option" where
  "objectAt s =
     (case s of
        [] \<Rightarrow> None
      | q # r \<Rightarrow>
          if q \<noteq> CHR ''?'' then None
          else (case dropWhile isWhiteSpace r of
                  [] \<Rightarrow> None
                | b # r' \<Rightarrow>
                    if b \<noteq> CHR ''{'' then None
                    else if takeWhile (\<lambda>c. c \<noteq> CHR ''}'') r' \<noteq> []
                            \<and> dropWhile (\<lambda>c. c \<noteq> CHR ''}'') r' \<noteq> []
                    then Some (takeWhile (\<lambda>c. c \<noteq> CHR ''}'') r')
                    else None))"

text \<open>\<^verbatim>\<open>typeText.match(...)\<close>: the leftmost position where the expression matches.\<close>

fun objectMatch :: "string \<Rightarrow> string option" where
  "objectMatch [] = None"
| "objectMatch (c # cs) =
     (case objectAt (c # cs) of Some g \<Rightarrow> Some g | None \<Rightarrow> objectMatch cs)"

text \<open>
  \<^verbatim>\<open>/(\w+)\s*:/g\<close> at one position: the longest run of word characters (at least one),
  white space, a colon. The result is group 1 and the text after the match.
\<close>

definition propertyAt :: "string \<Rightarrow> (string \<times> string) option" where
  "propertyAt s =
     (case dropWhile isWhiteSpace (dropWhile isWordChar s) of
        [] \<Rightarrow> None
      | k # rest \<Rightarrow>
          if takeWhile isWordChar s \<noteq> [] \<and> k = CHR '':''
          then Some (takeWhile isWordChar s, rest) else None)"

text \<open>\<^verbatim>\<open>objectContent.matchAll(...)\<close>: group 1 of every match, left to right; the search
  resumes after a match, and one character further where there is none.\<close>

function propertyMatches :: "string \<Rightarrow> string list" where
  "propertyMatches [] = []"
| "propertyMatches (c # cs) =
     (case propertyAt (c # cs) of
        Some (w, rest) \<Rightarrow> w # propertyMatches rest
      | None \<Rightarrow> propertyMatches cs)"
  by pat_completeness auto
termination
proof (relation "measure length")
  fix c :: char and cs :: string and x2 :: "string \<times> string" and w rest :: string
  assume a: "propertyAt (c # cs) = Some x2" and x: "(w, rest) = x2"
  from a x obtain k where
    k: "dropWhile isWhiteSpace (dropWhile isWordChar (c # cs)) = k # rest"
    by (auto simp: propertyAt_def split: list.splits if_splits)
  have "length (k # rest) \<le> length (dropWhile isWordChar (c # cs))"
    unfolding k [symmetric] by (rule length_dropWhile_le)
  also have "\<dots> \<le> length (c # cs)"
    by (rule length_dropWhile_le)
  finally show "(rest, c # cs) \<in> measure length" by simp
qed simp_all

subsection \<open>extractPorts\<close>

definition literalPort :: "string \<Rightarrow> type_element \<Rightarrow> port list" where
  \<comment> \<open>the body of the loop over the members of a type literal\<close>
  "literalPort portType member =
     (case member of
        PropertySignature (Some portId) ty \<Rightarrow>
          [\<lparr> port_id = portId,
             label = capitalize portId,
             port_type = simplifyType (case ty of Some t \<Rightarrow> getText t | None \<Rightarrow> ''unknown''),
             required = (portType = ''input'') \<rparr>]
      | _ \<Rightarrow> [])"

definition heuristicPort :: "string \<Rightarrow> string \<Rightarrow> port list" where
  \<comment> \<open>the body of the loop over the matches of the property expression\<close>
  "heuristicPort portType portId =
     (if portId \<noteq> [] \<and> portId \<noteq> ''readonly''
      then [\<lparr> port_id = portId, label = capitalize portId, port_type = ''any'',
              required = (portType = ''input'') \<rparr>]
      else [])"

fun extractPorts :: "type_node \<Rightarrow> string \<Rightarrow> port list" where
  "extractPorts (TypeLiteralNode txt ms) portType = concat (map (literalPort portType) ms)"
| "extractPorts (ConditionalTypeNode txt c e trueType f) portType = extractPorts trueType portType"
| "extractPorts (OtherTypeNode txt) portType =
     (case objectMatch txt of
        None \<Rightarrow> []
      | Some objectContent \<Rightarrow>
          concat (map (heuristicPort portType) (propertyMatches objectContent)))"

subsection \<open>Statements, and the containers of JavaScript\<close>

text \<open>
  \<^verbatim>\<open>ts.getJSDocCommentsAndTags\<close> gives the documentation nodes of a declaration, and the
  list of an interface below is its result, in the order of the library: the script
  reads element 0 of it, which is the leading documentation of the interface here. The
  \<^verbatim>\<open>comment\<close> of a node is a string, an array of parts with a \<^verbatim>\<open>text\<close> each, or undefined.
\<close>

datatype jsdoc_comment = CommentString string | CommentParts "string list" | CommentUndefined

datatype export_clause = NamedExports "string list" | NamespaceExport string

text \<open>
  An export declaration has the text of its module specifier and its export clause, if
  any; a type alias whether it has the \<^verbatim>\<open>export\<close> modifier, its name and its type; an
  interface its name, its documentation nodes and its members.
\<close>

datatype statement =
    ExportDeclaration "string option" "export_clause option"
  | TypeAliasDeclaration bool string type_node
  | InterfaceDeclaration string "jsdoc_comment list" "type_element list"
  | OtherStatement

text \<open>A \<^verbatim>\<open>Map\<close> keeps its keys in insertion order; \<^verbatim>\<open>set\<close> on a key it has replaces the
  value where the key stands.\<close>

fun map_set :: "('k \<times> 'v) list \<Rightarrow> 'k \<Rightarrow> 'v \<Rightarrow> ('k \<times> 'v) list" where
  "map_set [] k v = [(k, v)]"
| "map_set ((k', v') # m) k v = (if k' = k then (k, v) # m else (k', v') # map_set m k v)"

definition set_add :: "'a list \<Rightarrow> 'a \<Rightarrow> 'a list" where
  \<comment> \<open>\<^verbatim>\<open>Set.add\<close>\<close>
  "set_add xs x = (if x \<in> set xs then xs else xs @ [x])"


subsection \<open>The world of one run\<close>

text \<open>
  \<^verbatim>\<open>readSource\<close> is \<^verbatim>\<open>readFileSync\<close> followed by \<^verbatim>\<open>ts.createSourceFile\<close>: the statements of
  the file at a path, \<open>None\<close> where the read throws (the parser itself recovers from
  every syntax error and never throws). \<^verbatim>\<open>pathJoin\<close> is \<^verbatim>\<open>path.join\<close>, \<^verbatim>\<open>dirName\<close> the
  script's \<^verbatim>\<open>__dirname\<close>, \<^verbatim>\<open>isoNow\<close> the value of \<^verbatim>\<open>new Date().toISOString()\<close>, and
  \<^verbatim>\<open>inherited\<close> the text of a truthy property that every object literal inherits
  (\<^verbatim>\<open>constructor\<close>, \<^verbatim>\<open>toString\<close>, ...), which a lookup in the color table finds for
  such a category name.

  \<^verbatim>\<open>writeOutput\<close> is \<^verbatim>\<open>writeFileSync\<close> on the output file: given the file as it is
  (\<open>None\<close> while there is none) and the text to write, the write succeeds, and the file
  is the text, or it throws, and the file is left as the failed write leaves it: as it
  was, emptied, or with a part of the text.
\<close>

datatype write_result = WriteOk | WriteThrows "string option"

record world =
  readSource :: "string \<Rightarrow> statement list option"
  pathJoin :: "string \<Rightarrow> string \<Rightarrow> string"
  dirName :: string
  isoNow :: string
  inherited :: "string \<Rightarrow> string option"
  writeOutput :: "string option \<Rightarrow> string \<Rightarrow> write_result"

datatype error = ReadError string | WriteError string

definition TLANG_SRC_DIR :: "world \<Rightarrow> string" where
  "TLANG_SRC_DIR w = pathJoin w (dirName w) ''../../src''"

definition TLANG_INDEX_PATH :: "world \<Rightarrow> string" where
  "TLANG_INDEX_PATH w = pathJoin w (TLANG_SRC_DIR w) ''index.ts''"



subsection \<open>parseIndexExports\<close>

record exports =
  topLevel :: "string list"
  namespaces :: "(string \<times> string) list"

fun exportStatement :: "world \<Rightarrow> exports \<Rightarrow> statement \<Rightarrow> exports" where
  "exportStatement w ex (ExportDeclaration (Some moduleSpecifier) (Some (NamedExports elements))) =
     ex\<lparr>topLevel := fold (\<lambda>element names. set_add names element) elements (topLevel ex)\<rparr>"
| "exportStatement w ex (ExportDeclaration (Some moduleSpecifier) (Some (NamespaceExport namespaceName))) =
     ex\<lparr>namespaces :=
          map_set (namespaces ex) namespaceName
            (pathJoin w (TLANG_SRC_DIR w) (moduleSpecifier @ ''.ts''))\<rparr>"
| "exportStatement w ex statement = ex"

definition parseIndexExports :: "world \<Rightarrow> error + exports" where
  "parseIndexExports w =
     (case readSource w (TLANG_INDEX_PATH w) of
        None \<Rightarrow> Inl (ReadError (TLANG_INDEX_PATH w))
      | Some statements \<Rightarrow>
          Inr (fold (\<lambda>statement ex. exportStatement w ex statement) statements
                 \<lparr>topLevel = [], namespaces = []\<rparr>))"

subsection \<open>parseNodeFile\<close>

record node =
  name :: string
  interfaceName :: string
  description :: string
  inputs :: "port list"
  outputs :: "port list"

fun typeExportStatement :: "(string \<times> string) list \<Rightarrow> statement \<Rightarrow> (string \<times> string) list" where
  "typeExportStatement typeExports (TypeAliasDeclaration exported aliasName ty) =
     (if exported \<and> (str_endsWith (getText ty) ''Node'' \<or> str_includes (getText ty) ''Node<'')
      then map_set typeExports aliasName (getText ty)
      else typeExports)"
| "typeExportStatement typeExports statement = typeExports"

definition typeExportsOf :: "statement list \<Rightarrow> (string \<times> string) list" where
  \<comment> \<open>the first loop over the statements\<close>
  "typeExportsOf statements =
     fold (\<lambda>statement typeExports. typeExportStatement typeExports statement) statements []"

fun commentText :: "jsdoc_comment \<Rightarrow> string" where
  \<comment> \<open>the conditional expression on \<^verbatim>\<open>jsDoc[0].comment\<close>\<close>
  "commentText (CommentString comment) = comment"
| "commentText (CommentParts parts) = concat parts"
| "commentText CommentUndefined = []"

definition jsDocDescription :: "jsdoc_comment list \<Rightarrow> string" where
  \<comment> \<open>\<^verbatim>\<open>description\<close> before the push: empty, or the comment of \<^verbatim>\<open>jsDoc[0]\<close>\<close>
  "jsDocDescription jsDoc =
     (case jsDoc of
        [] \<Rightarrow> []
      | first # others \<Rightarrow> commentText first)"

fun memberPorts :: "port list \<times> port list \<Rightarrow> type_element \<Rightarrow> port list \<times> port list" where
  "memberPorts (ins, outs) (PropertySignature (Some memberName) (Some ty)) =
     (if memberName = ''inputs'' then (extractPorts ty ''input'', outs)
      else if memberName = ''outputs'' then (ins, extractPorts ty ''output'')
      else (ins, outs))"
| "memberPorts (ins, outs) member = (ins, outs)"

text \<open>The loop over the alias table, left at the first alias of the interface.\<close>

fun findExport :: "(string \<times> string) list \<Rightarrow> string \<Rightarrow> string option" where
  "findExport [] iname = None"
| "findExport ((expName, expType) # rest) iname =
     (if expType = iname \<or> str_startsWith expType (iname @ ''<'') then Some expName
      else findExport rest iname)"

definition exportNameOf :: "(string \<times> string) list \<Rightarrow> string \<Rightarrow> string" where
  "exportNameOf typeExports iname =
     (case findExport typeExports iname of
        Some expName \<Rightarrow> expName
      | None \<Rightarrow> stripNodeSuffix iname)"

fun interfaceNode :: "(string \<times> string) list \<Rightarrow> statement \<Rightarrow> node list" where
  "interfaceNode typeExports (InterfaceDeclaration iname jsDoc members) =
     (if \<not> str_endsWith iname ''Node'' then []
      else [\<lparr> name = exportNameOf typeExports iname,
              interfaceName = iname,
              description = trim (firstLine (jsDocDescription jsDoc)),
              inputs = fst (fold (\<lambda>member io. memberPorts io member) members ([], [])),
              outputs = snd (fold (\<lambda>member io. memberPorts io member) members ([], [])) \<rparr>])"
| "interfaceNode typeExports statement = []"

definition parseSourceFile :: "statement list \<Rightarrow> node list" where
  \<comment> \<open>\<^verbatim>\<open>parseNodeFile\<close> after the file is read\<close>
  "parseSourceFile statements =
     concat (map (interfaceNode (typeExportsOf statements)) statements)"

definition parseNodeFile :: "world \<Rightarrow> string \<Rightarrow> string \<Rightarrow> error + node list" where
  "parseNodeFile w filePath namespaceName =
     (case readSource w filePath of
        None \<Rightarrow> Inl (ReadError filePath)
      | Some statements \<Rightarrow> Inr (parseSourceFile statements))"

subsection \<open>generateRegistry\<close>

record registry_node = node +
  category :: string
  fullId :: string
  tlangType :: string

definition registryNode :: "string \<Rightarrow> node \<Rightarrow> registry_node" where
  \<comment> \<open>what the loop over the nodes of a namespace pushes\<close>
  "registryNode namespaceName n =
     \<lparr> name = name n, interfaceName = interfaceName n, description = description n,
       inputs = inputs n, outputs = outputs n,
       category = namespaceName,
       fullId = namespaceName @ ''.'' @ name n,
       tlangType = namespaceName @ ''.'' @ name n \<rparr>"

text \<open>The loop over the entries of the namespace map: a file that cannot be read ends it.\<close>

fun collectNodes ::
  "world \<Rightarrow> (string \<times> string) list \<Rightarrow> registry_node list \<Rightarrow> error + registry_node list" where
  "collectNodes w [] allNodes = Inr allNodes"
| "collectNodes w ((namespaceName, filePath) # rest) allNodes =
     (case parseNodeFile w filePath namespaceName of
        Inl e \<Rightarrow> Inl e
      | Inr nodes \<Rightarrow> collectNodes w rest (allNodes @ map (registryNode namespaceName) nodes))"

definition newline :: string where
  "newline = [CHR 0x0A]"











text \<open>
  The state is the content of the output file, \<open>None\<close> while there is none. Nothing is
  written before \<^verbatim>\<open>writeFileSync\<close>, so an exception of a read leaves the file as it was;
  an exception of the write leaves it as the world says. The result is the exception, if
  any, and the file.
\<close>

definition allNodes :: "world \<Rightarrow> error + registry_node list" where
  \<comment> \<open>the first half of \<^verbatim>\<open>generateRegistry\<close>: the list \<^verbatim>\<open>allNodes\<close> after the loop\<close>
  "allNodes w =
     (case parseIndexExports w of
        Inl e \<Rightarrow> Inl e
      | Inr ex \<Rightarrow> collectNodes w (namespaces ex) [])"





section \<open>Specification-level notions\<close>

text \<open>The classifier as the specification words it: an ordered list of rules, each a list
  of substrings and a category; the first rule with a substring in the text wins.\<close>

definition classifierRules :: "(string list \<times> string) list" where
  "classifierRules =
     [([''number''], ''number''),
      ([''string''], ''string''),
      ([''boolean''], ''boolean''),
      ([''[]'', ''Array''], ''array''),
      ([''{'', ''Record'', ''object''], ''object'')]"

definition firstMatchingRule :: "string \<Rightarrow> string" where
  "firstMatchingRule s =
     (case find (\<lambda>(pats, cat). list_ex (\<lambda>p. sublist p s) pats) classifierRules of
        Some (pats, cat) \<Rightarrow> cat
      | None \<Rightarrow> ''any'')"

text \<open>A text has the object pattern of the fallback tier when it contains a question
  mark, white space, and a non-empty brace-delimited text without a closing brace.\<close>

definition hasObjectPattern :: "string \<Rightarrow> bool" where
  "hasObjectPattern src =
     (\<exists>pre ws content post.
        src = pre @ ''?'' @ ws @ ''{'' @ content @ ''}'' @ post
        \<and> list_all isWhiteSpace ws \<and> content \<noteq> [] \<and> CHR ''}'' \<notin> set content)"

text \<open>An alias of an interface: its type text is the interface name, or the name applied
  to type arguments.\<close>

definition aliasOf :: "string \<Rightarrow> string \<times> string \<Rightarrow> bool" where
  "aliasOf iname a = (snd a = iname \<or> (\<exists>args. snd a = iname @ ''<'' @ args))"

text \<open>The aliases the table retains: exported, and the type text ends with \<^verbatim>\<open>Node\<close> or
  contains \<^verbatim>\<open>Node<\<close>.\<close>

fun retainedAlias :: "statement \<Rightarrow> (string \<times> string) list" where
  "retainedAlias (TypeAliasDeclaration exported aliasName ty) =
     (if exported \<and> (suffix ''Node'' (getText ty) \<or> sublist ''Node<'' (getText ty))
      then [(aliasName, getText ty)] else [])"
| "retainedAlias statement = []"







section \<open>Example inputs\<close>

text \<open>The conditional type \<^verbatim>\<open>T extends string ? { value: string } : never\<close>.\<close>

definition exampleConditional :: type_node where
  "exampleConditional =
     ConditionalTypeNode ''T extends string ? { value: string } : never''
       (OtherTypeNode ''T'') (OtherTypeNode ''string'')
       (TypeLiteralNode ''{ value: string }''
          [PropertySignature (Some ''value'') (Some (OtherTypeNode ''string''))])
       (OtherTypeNode ''never'')"

text \<open>A union type, which is neither a type literal nor a conditional type, with the
  object pattern in its text; and one without it.\<close>

definition exampleUnion :: type_node where
  "exampleUnion =
     OtherTypeNode ''(T extends X ? { readonly: A; out  : B; readonly c: D } : never) | null''"

definition exampleOptional :: type_node where
  "exampleOptional = OtherTypeNode ''{ a?: number } | null''"

definition outPort :: port where
  "outPort = \<lparr> port_id = ''out'', label = ''Out'', port_type = ''any'', required = False \<rparr>"

text \<open>A namespace file: \<^verbatim>\<open>AddNode\<close> has two documentation nodes and is exported as
  \<^verbatim>\<open>Add\<close>; \<^verbatim>\<open>SubtractNode\<close> has neither documentation nor an alias.\<close>

definition binaryMembers :: "type_element list" where
  "binaryMembers =
     [PropertySignature (Some ''inputs'')
        (Some (TypeLiteralNode ''{ a: number; b: number }''
           [PropertySignature (Some ''a'') (Some (OtherTypeNode ''number'')),
            PropertySignature (Some ''b'') (Some (OtherTypeNode ''number''))])),
      PropertySignature (Some ''outputs'')
        (Some (TypeLiteralNode ''{ out: number }''
           [PropertySignature (Some ''out'') (Some (OtherTypeNode ''number''))]))]"

definition exampleFile :: "statement list" where
  "exampleFile =
     [InterfaceDeclaration ''AddNode''
        [CommentString '' Add two numbers \<newline> Returns the sum.'', CommentString ''the sum'']
        binaryMembers,
      InterfaceDeclaration ''SubtractNode'' [] binaryMembers,
      TypeAliasDeclaration True ''Add'' (OtherTypeNode ''AddNode'')]"

definition binaryInputs :: "port list" where
  "binaryInputs =
     [\<lparr> port_id = ''a'', label = ''A'', port_type = ''number'', required = True \<rparr>,
      \<lparr> port_id = ''b'', label = ''B'', port_type = ''number'', required = True \<rparr>]"

definition binaryOutputs :: "port list" where
  "binaryOutputs =
     [\<lparr> port_id = ''out'', label = ''Out'', port_type = ''number'', required = False \<rparr>]"

definition addNode :: node where
  "addNode = \<lparr> name = ''Add'', interfaceName = ''AddNode'', description = ''Add two numbers'',
               inputs = binaryInputs, outputs = binaryOutputs \<rparr>"

definition subtractNode :: node where
  "subtractNode = \<lparr> name = ''Subtract'', interfaceName = ''SubtractNode'', description = [],
                    inputs = binaryInputs, outputs = binaryOutputs \<rparr>"












section \<open>Ports\<close>

lemma literalPort_required:
  "p \<in> set (literalPort portType m) \<Longrightarrow> required p = (portType = ''input'')"
proof (cases m)
  case (PropertySignature nm ty)
  assume "p \<in> set (literalPort portType m)"
  with PropertySignature show ?thesis
    by (cases nm) (simp_all add: literalPort_def)
next
  case OtherElement
  assume "p \<in> set (literalPort portType m)"
  with OtherElement show ?thesis
    by (simp add: literalPort_def)
qed

lemma heuristicPort_cases:
  "p \<in> set (heuristicPort portType i) \<Longrightarrow>
     p = \<lparr> port_id = i, label = capitalize i, port_type = ''any'',
           required = (portType = ''input'') \<rparr> \<and> i \<noteq> [] \<and> i \<noteq> ''readonly''"
  unfolding heuristicPort_def
  by (cases "i \<noteq> [] \<and> i \<noteq> ''readonly''") simp_all

lemma extractPorts_Other_cases:
  assumes "p \<in> set (extractPorts (OtherTypeNode src) portType)"
  shows "\<exists>i. p \<in> set (heuristicPort portType i)"
proof (cases "objectMatch src")
  case None
  with assms show ?thesis by simp
next
  case (Some content)
  with assms show ?thesis by auto
qed

lemma extractPorts_required:
  "p \<in> set (extractPorts t portType) \<Longrightarrow> required p = (portType = ''input'')"
proof (induction t portType rule: extractPorts.induct)
  case (1 src ms portType)
  then obtain m where "p \<in> set (literalPort portType m)" by auto
  then show ?case by (rule literalPort_required)
next
  case (2 src c e trueType f portType)
  then show ?case by simp
next
  case (3 src portType)
  from extractPorts_Other_cases [OF 3] obtain i where "p \<in> set (heuristicPort portType i)" ..
  from heuristicPort_cases [OF this] show ?case by simp
qed

lemma memberPorts_cases:
  "memberPorts (ins, outs) m = (ins, outs)
   \<or> (\<exists>ty. memberPorts (ins, outs) m = (extractPorts ty ''input'', outs))
   \<or> (\<exists>ty. memberPorts (ins, outs) m = (ins, extractPorts ty ''output''))"
proof (cases m)
  case (PropertySignature nm ty)
  show ?thesis
  proof (cases nm)
    case None
    with PropertySignature show ?thesis by simp
  next
    case (Some memberName)
    show ?thesis
    proof (cases ty)
      case None
      with PropertySignature Some show ?thesis by simp
    next
      case (Some t)
      have "memberPorts (ins, outs) (PropertySignature (Some memberName) (Some t)) = (ins, outs)
        \<or> memberPorts (ins, outs) (PropertySignature (Some memberName) (Some t))
            = (extractPorts t ''input'', outs)
        \<or> memberPorts (ins, outs) (PropertySignature (Some memberName) (Some t))
            = (ins, extractPorts t ''output'')"
        by (simp only: memberPorts.simps if_split [of "\<lambda>r. r = _"] simp_thms) blast
      with PropertySignature \<open>nm = Some memberName\<close> Some show ?thesis by blast
    qed
  qed
next
  case OtherElement
  then show ?thesis by simp
qed

lemma memberPorts_required:
  assumes "\<forall>p\<in>set (fst io). required p" "\<forall>p\<in>set (snd io). \<not> required p"
  shows "(\<forall>p\<in>set (fst (memberPorts io m)). required p)
         \<and> (\<forall>p\<in>set (snd (memberPorts io m)). \<not> required p)"
proof -
  obtain ins outs where io: "io = (ins, outs)" by (cases io)
  have i: "\<And>ty. \<forall>p\<in>set (extractPorts ty ''input''). required p"
    using extractPorts_required [of _ _ "''input''"] by simp
  have o: "\<And>ty. \<forall>p\<in>set (extractPorts ty ''output''). \<not> required p"
    using extractPorts_required [of _ _ "''output''"] by simp
  from memberPorts_cases [of ins outs m] assms i o show ?thesis
    unfolding io by (elim disjE exE) simp_all
qed

lemma fold_memberPorts_required:
  "\<forall>p\<in>set (fst io). required p \<Longrightarrow> \<forall>p\<in>set (snd io). \<not> required p \<Longrightarrow>
   (\<forall>p\<in>set (fst (fold (\<lambda>member io. memberPorts io member) ms io)). required p)
   \<and> (\<forall>p\<in>set (snd (fold (\<lambda>member io. memberPorts io member) ms io)). \<not> required p)"
proof (induction ms arbitrary: io)
  case Nil
  then show ?case by simp
next
  case (Cons m ms)
  from memberPorts_required [OF Cons.prems, of m]
  have a: "\<forall>p\<in>set (fst (memberPorts io m)). required p"
    and b: "\<forall>p\<in>set (snd (memberPorts io m)). \<not> required p"
    by (rule conjunct1, rule conjunct2)
  have "fold (\<lambda>member io. memberPorts io member) (m # ms) io
        = fold (\<lambda>member io. memberPorts io member) ms (memberPorts io m)"
    by simp
  with Cons.IH [OF a b] show ?case by (simp only:)
qed

lemma interfaceNode_required:
  assumes "n \<in> set (interfaceNode typeExports statement)"
  shows "(\<forall>p\<in>set (inputs n). required p) \<and> (\<forall>p\<in>set (outputs n). \<not> required p)"
proof (cases statement)
  case (InterfaceDeclaration iname jsDoc members)
  have "(\<forall>p\<in>set (fst (fold (\<lambda>member io. memberPorts io member) members ([], []))). required p)
   \<and> (\<forall>p\<in>set (snd (fold (\<lambda>member io. memberPorts io member) members ([], []))). \<not> required p)"
    by (rule fold_memberPorts_required) simp_all
  with assms InterfaceDeclaration show ?thesis
    by (cases "str_endsWith iname ''Node''") simp_all
qed (use assms in simp_all)

text \<open>
  C5. Every port that the extractor returns, in each of its three tiers, has
  \<open>required\<close> equal to (role is input); so in every node of a parsed file the input
  ports are required and the output ports are not.
\<close>

theorem required_flag_law:
  "(p \<in> set (extractPorts t portType) \<longrightarrow> required p = (portType = ''input''))
   \<and> (n \<in> set (parseSourceFile statements) \<longrightarrow>
        (\<forall>p\<in>set (inputs n). required p) \<and> (\<forall>p\<in>set (outputs n). \<not> required p))"
proof (rule conjI; rule impI)
  assume "p \<in> set (extractPorts t portType)"
  then show "required p = (portType = ''input'')" by (rule extractPorts_required)
next
  assume "n \<in> set (parseSourceFile statements)"
  then obtain statement where "n \<in> set (interfaceNode (typeExportsOf statements) statement)"
    unfolding parseSourceFile_def by auto
  then show "(\<forall>p\<in>set (inputs n). required p) \<and> (\<forall>p\<in>set (outputs n). \<not> required p)"
    by (rule interfaceNode_required)
qed

lemma exampleUnion_ports:
  "extractPorts exampleUnion ''output''
   = [outPort, \<lparr> port_id = ''c'', label = ''C'', port_type = ''any'', required = False \<rparr>]"
  by (simp add: exampleUnion_def outPort_def objectAt_def propertyAt_def isWordChar_def
        isWhiteSpace_def heuristicPort_def capitalize_def toUpperCase_def lowerCaseLetters_def upperCaseLetters_def)

lemma binaryMembers_ports:
  "fold (\<lambda>member io. memberPorts io member) binaryMembers ([], [])
   = (binaryInputs, binaryOutputs)"
  by (simp add: binaryMembers_def binaryInputs_def binaryOutputs_def literalPort_def
        simplifyType_def str_includes_def sublist_code capitalize_def toUpperCase_def lowerCaseLetters_def upperCaseLetters_def)

lemma exampleFile_typeExports: "typeExportsOf exampleFile = [(''Add'', ''AddNode'')]"
  by (simp add: exampleFile_def typeExportsOf_def str_endsWith_def suffix_def)

lemma exampleFile_nodes: "parseSourceFile exampleFile = [addNode, subtractNode]"
  unfolding parseSourceFile_def exampleFile_typeExports
  by (simp add: exampleFile_def binaryMembers_ports addNode_def subtractNode_def
        exportNameOf_def str_startsWith_def str_endsWith_def suffix_def stripNodeSuffix_def
        jsDocDescription_def firstLine_def trim_def isWhiteSpace_def)

theorem required_flag_law_witness:
  "outPort \<in> set (extractPorts exampleUnion ''output'')
   \<and> required outPort = (''output'' = ''input'')
   \<and> addNode \<in> set (parseSourceFile exampleFile)
   \<and> list_all required (inputs addNode)
   \<and> list_all (\<lambda>p. \<not> required p) (outputs addNode)"
proof -
  have a: "outPort \<in> set (extractPorts exampleUnion ''output'')"
    by (simp only: exampleUnion_ports list.set insert_iff simp_thms)
  have b: "addNode \<in> set (parseSourceFile exampleFile)"
    by (simp only: exampleFile_nodes list.set insert_iff simp_thms)
  note law = required_flag_law [of outPort exampleUnion "''output''" addNode exampleFile]
  from law [THEN conjunct1, THEN mp, OF a]
  have c: "required outPort = (''output'' = ''input'')" .
  note f = law [THEN conjunct2, THEN mp, OF b]
  have d: "list_all required (inputs addNode)"
    unfolding list_all_iff by (rule f [THEN conjunct1])
  have e: "list_all (\<lambda>p. \<not> required p) (outputs addNode)"
    unfolding list_all_iff by (rule f [THEN conjunct2])
  from a c b d e show ?thesis by (intro conjI)
qed

text \<open>
  C6. A conditional type yields the ports of its true branch, extracted with the same
  role, whatever its false branch is; the input ports of
  \<^verbatim>\<open>T extends string ? { value: string } : never\<close> are the one required string port
  \<^verbatim>\<open>value\<close>.
\<close>

theorem conditional_true_branch:
  "extractPorts (ConditionalTypeNode src c e trueType falseType) portType
     = extractPorts trueType portType
   \<and> extractPorts exampleConditional ''input''
     = [\<lparr> port_id = ''value'', label = ''Value'', port_type = ''string'', required = True \<rparr>]"
  by (simp add: exampleConditional_def literalPort_def simplifyType_def str_includes_def
        sublist_code capitalize_def toUpperCase_def lowerCaseLetters_def upperCaseLetters_def)

text \<open>
  C7. The classifier is the first-match evaluation of the ordered rule list of the
  specification, on every string, and its result is one of the six categories.
\<close>

theorem simplifyType_first_match:
  "simplifyType s = firstMatchingRule s
   \<and> simplifyType s \<in> set [''number'', ''string'', ''boolean'', ''array'', ''object'', ''any'']"
  by (simp add: simplifyType_def firstMatchingRule_def classifierRules_def str_includes_def)

section \<open>The fallback tier\<close>

lemma objectAt_pattern:
  assumes "list_all isWhiteSpace ws" "content \<noteq> []" "CHR ''}'' \<notin> set content"
  shows "objectAt (''?'' @ ws @ ''{'' @ content @ ''}'' @ post) = Some content"
proof -
  have ws: "dropWhile isWhiteSpace (ws @ CHR ''{'' # content @ CHR ''}'' # post)
            = CHR ''{'' # content @ CHR ''}'' # post"
    using assms(1) by (simp add: dropWhile_append2 list_all_iff isWhiteSpace_def)
  have nb: "\<And>x. x \<in> set content \<Longrightarrow> x \<noteq> CHR ''}''"
    using assms(3) by blast
  have tk: "takeWhile (\<lambda>c. c \<noteq> CHR ''}'') (content @ CHR ''}'' # post) = content"
    by (simp add: nb)
  have dr: "dropWhile (\<lambda>c. c \<noteq> CHR ''}'') (content @ CHR ''}'' # post) = CHR ''}'' # post"
    by (simp add: nb)
  show ?thesis
    using assms(2) by (simp add: objectAt_def ws tk dr)
qed

lemma objectMatch_pattern:
  assumes "list_all isWhiteSpace ws" "content \<noteq> []" "CHR ''}'' \<notin> set content"
  shows "objectMatch (pre @ ''?'' @ ws @ ''{'' @ content @ ''}'' @ post) \<noteq> None"
proof (induction pre)
  case Nil
  show ?case using objectAt_pattern [OF assms, of post] by simp
next
  case (Cons c pre)
  then show ?case by (simp split: option.splits)
qed

lemma objectMatch_complete: "hasObjectPattern src \<Longrightarrow> objectMatch src \<noteq> None"
  unfolding hasObjectPattern_def
  by (elim exE conjE) (simp only: objectMatch_pattern not_False_eq_True)

lemma objectAt_sound:
  "objectAt s = Some g \<Longrightarrow>
     \<exists>ws post. s = ''?'' @ ws @ ''{'' @ g @ ''}'' @ post
        \<and> list_all isWhiteSpace ws \<and> g \<noteq> [] \<and> CHR ''}'' \<notin> set g"
proof -
  assume a: "objectAt s = Some g"
  then obtain r where s: "s = CHR ''?'' # r"
    by (cases s) (auto simp: objectAt_def split: if_splits)
  from a s obtain r' where r': "dropWhile isWhiteSpace r = CHR ''{'' # r'"
    by (cases "dropWhile isWhiteSpace r") (auto simp: objectAt_def split: if_splits)
  from a have g: "takeWhile (\<lambda>c. c \<noteq> CHR ''}'') r' = g" and g0: "g \<noteq> []"
    and d: "dropWhile (\<lambda>c. c \<noteq> CHR ''}'') r' \<noteq> []"
    unfolding s objectAt_def by (auto simp: r' split: if_splits)
  from d obtain post where post: "dropWhile (\<lambda>c. c \<noteq> CHR ''}'') r' = CHR ''}'' # post"
    using hd_dropWhile [OF d] by (cases "dropWhile (\<lambda>c. c \<noteq> CHR ''}'') r'") auto
  define ws where "ws = takeWhile isWhiteSpace r"
  have 1: "ws @ CHR ''{'' # r' = r"
    using takeWhile_dropWhile_id [of isWhiteSpace r] unfolding r' ws_def .
  have 2: "g @ CHR ''}'' # post = r'"
    using takeWhile_dropWhile_id [of "\<lambda>c. c \<noteq> CHR ''}''" r'] unfolding g post .
  have 3: "list_all isWhiteSpace ws"
    unfolding ws_def list_all_iff by (blast dest: set_takeWhileD)
  have 4: "CHR ''}'' \<notin> set g"
    unfolding g [symmetric] by (blast dest: set_takeWhileD)
  have 5: "s = ''?'' @ ws @ ''{'' @ g @ ''}'' @ post"
    unfolding s 1 [symmetric] 2 [symmetric] by simp
  show ?thesis
    by (rule exI [of _ ws], rule exI [of _ post]) (intro conjI 5 3 4 g0)
qed

lemma objectMatch_sound: "objectMatch src = Some g \<Longrightarrow> hasObjectPattern src"
proof (induction src)
  case Nil
  then show ?case by simp
next
  case (Cons c cs)
  show ?case
  proof (cases "objectAt (c # cs)")
    case None
    with Cons have "hasObjectPattern cs" by simp
    then obtain pre ws content post where
      p: "cs = pre @ ''?'' @ ws @ ''{'' @ content @ ''}'' @ post
          \<and> list_all isWhiteSpace ws \<and> content \<noteq> [] \<and> CHR ''}'' \<notin> set content"
      unfolding hasObjectPattern_def by (elim exE)
    then have "c # cs = (c # pre) @ ''?'' @ ws @ ''{'' @ content @ ''}'' @ post
      \<and> list_all isWhiteSpace ws \<and> content \<noteq> [] \<and> CHR ''}'' \<notin> set content"
      by simp
    then show ?thesis
      unfolding hasObjectPattern_def by (intro exI)
  next
    case (Some g')
    from objectAt_sound [OF Some] obtain ws post where
      "c # cs = ''?'' @ ws @ ''{'' @ g' @ ''}'' @ post
        \<and> list_all isWhiteSpace ws \<and> g' \<noteq> [] \<and> CHR ''}'' \<notin> set g'"
      by (elim exE)
    then have "c # cs = [] @ ''?'' @ ws @ ''{'' @ g' @ ''}'' @ post
        \<and> list_all isWhiteSpace ws \<and> g' \<noteq> [] \<and> CHR ''}'' \<notin> set g'"
      by simp
    then show ?thesis
      unfolding hasObjectPattern_def by (intro exI)
  qed
qed

lemma exampleOptional_no_pattern:
  "\<not> hasObjectPattern ''{ a?: number } | null''"
proof
  assume "hasObjectPattern ''{ a?: number } | null''"
  from objectMatch_complete [OF this] show False
    by (simp add: objectAt_def isWhiteSpace_def)
qed

text \<open>
  C9. For a type node that is neither a type literal nor a conditional type, every
  extracted port has the category \<open>any\<close> and \<open>required\<close> equal to (role is input); and
  when the text of the node has no object pattern, the extractor returns the empty list.
\<close>

theorem heuristic_tier:
  "(p \<in> set (extractPorts (OtherTypeNode src) portType) \<longrightarrow>
      port_type p = ''any'' \<and> required p = (portType = ''input''))
   \<and> (\<not> hasObjectPattern src \<longrightarrow> extractPorts (OtherTypeNode src) portType = [])"
proof (rule conjI; rule impI)
  assume "p \<in> set (extractPorts (OtherTypeNode src) portType)"
  from extractPorts_Other_cases [OF this] obtain i where "p \<in> set (heuristicPort portType i)" ..
  from heuristicPort_cases [OF this]
  show "port_type p = ''any'' \<and> required p = (portType = ''input'')"
    by simp
next
  assume "\<not> hasObjectPattern src"
  with objectMatch_sound [of src] have "objectMatch src = None"
    by (cases "objectMatch src") auto
  then show "extractPorts (OtherTypeNode src) portType = []" by simp
qed

theorem heuristic_tier_witness:
  "outPort \<in> set (extractPorts exampleUnion ''output'')
   \<and> port_type outPort = ''any'' \<and> required outPort = (''output'' = ''input'')
   \<and> \<not> hasObjectPattern ''{ a?: number } | null''
   \<and> extractPorts exampleOptional ''input'' = []"
proof -
  have a: "outPort \<in> set (extractPorts (OtherTypeNode
      ''(T extends X ? { readonly: A; out  : B; readonly c: D } : never) | null'') ''output'')"
    using exampleUnion_ports unfolding exampleUnion_def by simp
  note b = exampleOptional_no_pattern
  from heuristic_tier [THEN conjunct1, THEN mp, OF a]
  have c: "port_type outPort = ''any'' \<and> required outPort = (''output'' = ''input'')" .
  from heuristic_tier [THEN conjunct2, THEN mp, OF b]
  have d: "extractPorts exampleOptional ''input'' = []"
    unfolding exampleOptional_def .
  from a c b d show ?thesis
    unfolding exampleUnion_def by (intro conjI) simp_all
qed

text \<open>
  C10. In the fallback tier no port has the id \<^verbatim>\<open>readonly\<close>, also when the matched braces
  hold \<^verbatim>\<open>readonly:\<close>.
\<close>

theorem no_readonly_port:
  "p \<in> set (extractPorts (OtherTypeNode src) portType) \<Longrightarrow> port_id p \<noteq> ''readonly''"
proof -
  assume "p \<in> set (extractPorts (OtherTypeNode src) portType)"
  from extractPorts_Other_cases [OF this] obtain i where "p \<in> set (heuristicPort portType i)" ..
  from heuristicPort_cases [OF this] show ?thesis by simp
qed

theorem no_readonly_port_witness:
  "extractPorts exampleUnion ''output''
     = [outPort, \<lparr> port_id = ''c'', label = ''C'', port_type = ''any'', required = False \<rparr>]
   \<and> port_id outPort \<noteq> ''readonly''"
proof -
  have a: "outPort \<in> set (extractPorts (OtherTypeNode
      ''(T extends X ? { readonly: A; out  : B; readonly c: D } : never) | null'') ''output'')"
    using exampleUnion_ports unfolding exampleUnion_def by simp
  from no_readonly_port [OF a] exampleUnion_ports show ?thesis by (intro conjI)
qed

section \<open>The exported name\<close>

lemma map_set_fresh: "k \<notin> fst ` set m \<Longrightarrow> map_set m k v = m @ [(k, v)]"
  by (induction m) auto

lemma fold_map_set_distinct:
  "distinct (map fst (m @ kvs)) \<Longrightarrow>
   fold (\<lambda>kv m. map_set m (fst kv) (snd kv)) kvs m = m @ kvs"
proof (induction kvs arbitrary: m)
  case Nil
  then show ?case by simp
next
  case (Cons kv kvs)
  from Cons.prems have fresh: "fst kv \<notin> fst ` set m" by auto
  from Cons.prems have "distinct (map fst ((m @ [kv]) @ kvs))" by simp
  from Cons.IH [OF this] show ?case
    by (simp add: map_set_fresh [OF fresh])
qed

lemma typeExportStatement_retained:
  "typeExportStatement te statement
   = fold (\<lambda>kv m. map_set m (fst kv) (snd kv)) (retainedAlias statement) te"
  by (cases statement) (auto simp add: str_endsWith_def str_includes_def)

lemma fold_typeExportStatement:
  "fold (\<lambda>statement te. typeExportStatement te statement) statements te
   = fold (\<lambda>kv m. map_set m (fst kv) (snd kv)) (concat (map retainedAlias statements)) te"
  by (induction statements arbitrary: te) (simp_all add: typeExportStatement_retained)

lemma typeExportsOf_distinct:
  assumes "distinct (map fst (concat (map retainedAlias statements)))"
  shows "typeExportsOf statements = concat (map retainedAlias statements)"
  unfolding typeExportsOf_def fold_typeExportStatement
  using fold_map_set_distinct [of "[]" "concat (map retainedAlias statements)"] assms
  by simp

lemma findExport_filter:
  "findExport te iname
   = (case filter (aliasOf iname) te of [] \<Rightarrow> None | a # _ \<Rightarrow> Some (fst a))"
proof (induction te)
  case Nil
  show ?case by simp
next
  case (Cons a te)
  obtain expName expType where a: "a = (expName, expType)" by (cases a)
  have "aliasOf iname a = (expType = iname \<or> str_startsWith expType (iname @ ''<''))"
    unfolding a aliasOf_def str_startsWith_def prefix_def by simp
  with Cons show ?case unfolding a by simp
qed

lemma stripNodeSuffix_append:
  assumes "str_endsWith s ''Node''"
  shows "stripNodeSuffix s @ ''Node'' = s"
proof -
  from assms obtain zs where s: "s = zs @ ''Node''"
    unfolding str_endsWith_def suffix_def by blast
  have "take (length s - 4) s = zs" unfolding s by simp
  with assms show ?thesis
    unfolding stripNodeSuffix_def using s by simp
qed

lemma interfaceNode_cases:
  assumes "n \<in> set (interfaceNode te statement)"
  obtains iname jsDoc members where
    "statement = InterfaceDeclaration iname jsDoc members"
    "str_endsWith iname ''Node''"
    "n = \<lparr> name = exportNameOf te iname, interfaceName = iname,
           description = trim (firstLine (jsDocDescription jsDoc)),
           inputs = fst (fold (\<lambda>member io. memberPorts io member) members ([], [])),
           outputs = snd (fold (\<lambda>member io. memberPorts io member) members ([], [])) \<rparr>"
proof (cases statement)
  case (InterfaceDeclaration iname jsDoc members)
  with assms have e: "str_endsWith iname ''Node''"
    by (cases "str_endsWith iname ''Node''") simp_all
  with assms InterfaceDeclaration that show ?thesis by simp
qed (use assms in simp_all)

text \<open>
  C8. The exported name of a recognized node interface is the alias name of the first
  entry of the alias table that references the interface name or a generic instantiation
  of it; without such an entry it is the interface name without its trailing \<^verbatim>\<open>Node\<close>.
  The alias table holds the retained exported aliases in file order (when no alias name
  is declared twice).
\<close>

theorem exportedName_resolution:
  assumes "n \<in> set (parseSourceFile statements)"
  shows "(case filter (aliasOf (interfaceName n)) (typeExportsOf statements) of
            [] \<Rightarrow> name n @ ''Node'' = interfaceName n
          | a # _ \<Rightarrow> name n = fst a)
         \<and> (distinct (map fst (concat (map retainedAlias statements))) \<longrightarrow>
              typeExportsOf statements = concat (map retainedAlias statements))"
proof (rule conjI)
  from assms obtain statement where
    "n \<in> set (interfaceNode (typeExportsOf statements) statement)"
    unfolding parseSourceFile_def by auto
  then obtain iname jsDoc members where
    e: "str_endsWith iname ''Node''"
    and nm: "name n = exportNameOf (typeExportsOf statements) iname"
    and i: "interfaceName n = iname"
    by (elim interfaceNode_cases) simp
  show "case filter (aliasOf (interfaceName n)) (typeExportsOf statements) of
            [] \<Rightarrow> name n @ ''Node'' = interfaceName n
          | a # _ \<Rightarrow> name n = fst a"
  proof (cases "filter (aliasOf iname) (typeExportsOf statements)")
    case Nil
    then have "exportNameOf (typeExportsOf statements) iname = stripNodeSuffix iname"
      unfolding exportNameOf_def findExport_filter by simp
    with Nil stripNodeSuffix_append [OF e] show ?thesis
      unfolding i nm by simp
  next
    case (Cons a as)
    then have "exportNameOf (typeExportsOf statements) iname = fst a"
      unfolding exportNameOf_def findExport_filter by simp
    with Cons show ?thesis
      unfolding i nm by simp
  qed
next
  show "distinct (map fst (concat (map retainedAlias statements))) \<longrightarrow>
          typeExportsOf statements = concat (map retainedAlias statements)"
    by (rule impI) (rule typeExportsOf_distinct)
qed

section \<open>The description\<close>












theorem exportedName_resolution_witness:
  "subtractNode \<in> set (parseSourceFile exampleFile)
   \<and> filter (aliasOf (interfaceName subtractNode)) (typeExportsOf exampleFile) = []
   \<and> name subtractNode @ ''Node'' = interfaceName subtractNode
   \<and> name subtractNode = ''Subtract''
   \<and> addNode \<in> set (parseSourceFile exampleFile)
   \<and> filter (aliasOf (interfaceName addNode)) (typeExportsOf exampleFile) = [(''Add'', ''AddNode'')]
   \<and> name addNode = ''Add''
   \<and> distinct (map fst (concat (map retainedAlias exampleFile)))
   \<and> typeExportsOf exampleFile = concat (map retainedAlias exampleFile)"
proof -
  have 1: "subtractNode \<in> set (parseSourceFile exampleFile)"
    and 5: "addNode \<in> set (parseSourceFile exampleFile)"
    by (simp_all only: exampleFile_nodes list.set insert_iff simp_thms)
  have 2: "filter (aliasOf (interfaceName subtractNode)) (typeExportsOf exampleFile) = []"
    unfolding exampleFile_typeExports by (simp add: aliasOf_def subtractNode_def)
  have 6: "filter (aliasOf (interfaceName addNode)) (typeExportsOf exampleFile)
           = [(''Add'', ''AddNode'')]"
    unfolding exampleFile_typeExports by (simp add: aliasOf_def addNode_def)
  note s = exportedName_resolution [OF 1]
  note a = exportedName_resolution [OF 5]
  from s have 3: "name subtractNode @ ''Node'' = interfaceName subtractNode"
    unfolding 2 by simp
  have 4: "name subtractNode = ''Subtract''"
    using 3 by (simp add: subtractNode_def)
  from a have 7: "name addNode = ''Add''"
    unfolding 6 by simp
  have 8: "distinct (map fst (concat (map retainedAlias exampleFile)))"
    by (simp add: exampleFile_def)
  from a [THEN conjunct2, THEN mp, OF 8]
  have 9: "typeExportsOf exampleFile = concat (map retainedAlias exampleFile)" .
  from 1 2 3 4 5 6 7 8 9 show ?thesis by (intro conjI)
qed

section \<open>The run\<close>










subsection \<open>The namespace map\<close>











subsection \<open>Worlds that differ in the write or in the clock\<close>
























section \<open>Determinism\<close>


section \<open>The keys of the registry\<close>








end
